theory Spec2Isabelle
  imports Complex_Main
begin

section \<open>Python exceptions and the result type\<close>

text \<open>
  Every function of \<^verbatim>\<open>module.py\<close> is modelled as a function into
  \<open>py_error + 'a\<close>: \<open>Inl e\<close> is the exception the Python code raises,
  \<open>Inr v\<close> the value it returns.
\<close>

datatype py_error =
    NameError string
  | UnboundLocalError string
  | AttributeError string
  | ValueError string
  | IndexError string
  | RuntimeError string
  | ZeroDivisionError
  | OverflowError

definition bindE :: "py_error + 'a \<Rightarrow> ('a \<Rightarrow> py_error + 'b) \<Rightarrow> py_error + 'b" where
  "bindE m f = (case m of Inl e \<Rightarrow> Inl e | Inr v \<Rightarrow> f v)"

text \<open>Reading a name of the module scope: \<open>NameError\<close> when nothing binds it.\<close>

definition lookup_name :: "string \<Rightarrow> 'v option \<Rightarrow> py_error + 'v" where
  "lookup_name n b = (case b of None \<Rightarrow> Inl (NameError n) | Some v \<Rightarrow> Inr v)"

text \<open>Reading an attribute of an instance: \<open>AttributeError\<close> when it was never set.\<close>

definition lookup_attr :: "string \<Rightarrow> 'v option \<Rightarrow> py_error + 'v" where
  "lookup_attr n b = (case b of None \<Rightarrow> Inl (AttributeError n) | Some v \<Rightarrow> Inr v)"


section \<open>\<open>int(a/b)\<close>: true division, then truncation\<close>

text \<open>
  \<^verbatim>\<open>int(input_dim/13)\<close> and \<^verbatim>\<open>int(timestep/self.sample_rate)\<close> divide two
  non-negative Python ints with \<open>/\<close>, which yields the binary64 float nearest to the
  exact quotient (ties to even; \<open>OverflowError\<close> beyond the float range), and
  truncate that float. The float has 53 significant bits, so for a quotient with
  binary exponent \<open>e\<close> the float is a multiple of \<open>2 ^ (e - 52)\<close>.
\<close>

fun ilog2 :: "nat \<Rightarrow> nat" where
  "ilog2 n = (if n < 2 then 0 else Suc (ilog2 (n div 2)))"

declare ilog2.simps [simp del]

definition round_half_even :: "nat \<Rightarrow> nat \<Rightarrow> nat" where
  "round_half_even a b =
     (let q = a div b; r = a mod b in
      if 2 * r < b then q
      else if b < 2 * r then q + 1
      else if even q then q else q + 1)"

text \<open>For \<open>0 < b \<le> a\<close>: the \<open>e\<close> with \<open>2 ^ e \<le> a / b < 2 ^ (e + 1)\<close>.\<close>

definition float_exponent :: "nat \<Rightarrow> nat \<Rightarrow> nat" where
  "float_exponent a b =
     (let d = ilog2 a - ilog2 b in if b * 2 ^ d \<le> a then d else d - 1)"

definition int_truediv :: "nat \<Rightarrow> nat \<Rightarrow> py_error + nat" where
  "int_truediv a b =
     (if b = 0 then Inl ZeroDivisionError
      else if a < b then Inr (if (b - a) * 2 ^ 54 \<le> b then 1 else 0)
      else
        let e = float_exponent a b in
        if 52 \<le> e then
          (let v = round_half_even a (b * 2 ^ (e - 52)) * 2 ^ (e - 52) in
           if 2 ^ 1024 \<le> v then Inl OverflowError else Inr v)
        else Inr (round_half_even (a * 2 ^ (52 - e)) b div 2 ^ (52 - e)))"


section \<open>Tensors\<close>

text \<open>
  A tensor is its shape and its entries, read by an index list as long as the shape.
  Only the entries at indices inside the shape mean anything. Memory layout (strides,
  contiguity) is not modelled: \<^verbatim>\<open>.contiguous()\<close> is the identity.
\<close>

record 'a tensor =
  shape :: "nat list"
  elem :: "nat list \<Rightarrow> 'a"

type_synonym 'a layer = "'a tensor \<Rightarrow> py_error + 'a tensor"

text \<open>A packed sequence: the padded data and the lengths it was packed with.\<close>

type_synonym 'a packed = "'a tensor \<times> nat list"

type_synonym 'a rnn = "'a packed \<Rightarrow> 'a tensor list \<Rightarrow> py_error + ('a packed \<times> 'a tensor list)"


subsection \<open>Shapes, views and slices\<close>

definition numel :: "'a tensor \<Rightarrow> nat" where
  "numel t = prod_list (shape t)"

text \<open>\<^verbatim>\<open>t.shape[i]\<close> for a non-negative \<open>i\<close>.\<close>

definition shape_at :: "'a tensor \<Rightarrow> nat \<Rightarrow> py_error + nat" where
  "shape_at t i =
     (if i < length (shape t) then Inr (shape t ! i)
      else Inl (IndexError ''tuple index out of range''))"

text \<open>Row-major position of an index in a shape, and back.\<close>

fun ravel :: "nat list \<Rightarrow> nat list \<Rightarrow> nat" where
  "ravel (n # ns) (i # js) = i * prod_list ns + ravel ns js"
| "ravel _ _ = 0"

fun unravel :: "nat list \<Rightarrow> nat \<Rightarrow> nat list" where
  "unravel [] k = []"
| "unravel (n # ns) k = (k div prod_list ns) # unravel ns (k mod prod_list ns)"

text \<open>
  \<^verbatim>\<open>t.contiguous().view(*new_shape)\<close>: the same entries in row-major order under a
  new shape; a \<open>RuntimeError\<close> when the sizes differ.
\<close>

definition view :: "'a tensor \<Rightarrow> nat list \<Rightarrow> py_error + 'a tensor" where
  "view t new_shape =
     (if prod_list new_shape = numel t then
        Inr \<lparr> shape = new_shape, elem = (\<lambda>i. elem t (unravel (shape t) (ravel new_shape i))) \<rparr>
      else Inl (RuntimeError ''shape is invalid for input size''))"

definition swap_1_2 :: "'b list \<Rightarrow> 'b list" where
  "swap_1_2 xs = (case xs of a # b # c # r \<Rightarrow> a # c # b # r | _ \<Rightarrow> xs)"

text \<open>\<^verbatim>\<open>t.transpose(1,2)\<close>\<close>

definition transpose_1_2 :: "'a tensor \<Rightarrow> py_error + 'a tensor" where
  "transpose_1_2 t =
     (if length (shape t) < 3 then Inl (IndexError ''Dimension out of range'')
      else Inr \<lparr> shape = swap_1_2 (shape t), elem = (\<lambda>i. elem t (swap_1_2 i)) \<rparr>)"

text \<open>
  \<^verbatim>\<open>t[:,:-k,:]\<close> for \<open>k > 0\<close>: the first \<open>shape[1] - k\<close> positions of axis 1 (none
  when \<open>k\<close> exceeds the axis).
\<close>

definition slice_drop_last :: "'a tensor \<Rightarrow> nat \<Rightarrow> py_error + 'a tensor" where
  "slice_drop_last t k =
     (case shape t of
        a # b # c # r \<Rightarrow> Inr (t \<lparr> shape := a # (b - k) # c # r \<rparr>)
      | _ \<Rightarrow> Inl (IndexError ''too many indices for tensor''))"

text \<open>\<^verbatim>\<open>t[:,::s,:]\<close> for \<open>s > 0\<close>: every \<open>s\<close>-th position of axis 1, from position 0.\<close>

definition slice_step :: "'a tensor \<Rightarrow> nat \<Rightarrow> py_error + 'a tensor" where
  "slice_step t s =
     (case shape t of
        a # b # c # r \<Rightarrow>
          Inr \<lparr> shape = a # ((b + s - 1) div s) # c # r,
                elem = (\<lambda>i. elem t (case i of x # y # z \<Rightarrow> x # (y * s) # z | _ \<Rightarrow> i)) \<rparr>
      | _ \<Rightarrow> Inl (IndexError ''too many indices for tensor''))"

text \<open>\<^verbatim>\<open>a, b, c = t.shape\<close>\<close>

definition unpack3 :: "'a tensor \<Rightarrow> py_error + (nat \<times> nat \<times> nat)" where
  "unpack3 t =
     (case shape t of
        [a, b, c] \<Rightarrow> Inr (a, b, c)
      | _ \<Rightarrow> Inl (ValueError ''wrong number of values to unpack''))"


section \<open>The library \<^verbatim>\<open>torch.nn\<close> and the module scope\<close>

text \<open>
  \<^verbatim>\<open>torch.nn\<close> is not part of the repository; it is a parameter of the model: the
  names it exports and the layers its constructors build (their weights are drawn by
  the library, so a built layer is an arbitrary function on tensors).
\<close>

record 'a torch_nn =
  nn_attrs :: "string list"
  nn_vgg_stack :: "nat \<Rightarrow> py_error + 'a layer"
  nn_recurrent :: "string \<Rightarrow> nat \<Rightarrow> nat \<Rightarrow> bool \<Rightarrow> py_error + 'a rnn"
  nn_LayerNorm :: "nat \<Rightarrow> py_error + 'a layer"
  nn_Dropout :: "real \<Rightarrow> py_error + 'a layer"
  nn_Conv1d :: "nat \<Rightarrow> nat \<Rightarrow> nat \<Rightarrow> nat \<Rightarrow> py_error + 'a layer"
  nn_Linear :: "nat \<Rightarrow> nat \<Rightarrow> py_error + 'a layer"

definition nn_getattr :: "'a torch_nn \<Rightarrow> string \<Rightarrow> py_error + string" where
  "nn_getattr nn a = (if a \<in> set (nn_attrs nn) then Inr a else Inl (AttributeError a))"

text \<open>
  The functions of \<^verbatim>\<open>module.py\<close> read names that are neither parameters nor locals:
  \<^verbatim>\<open>example_input\<close>, \<^verbatim>\<open>d\<close>, \<^verbatim>\<open>rnn_cell\<close>, \<^verbatim>\<open>in_dim\<close>,
  \<^verbatim>\<open>pack_padded_sequence\<close>, \<^verbatim>\<open>pad_packed_sequence\<close>, \<^verbatim>\<open>state\<close>, \<^verbatim>\<open>bs\<close>,
  \<^verbatim>\<open>enc_len\<close>, \<^verbatim>\<open>dim\<close>. Python resolves them in the module scope at call time. The
  record below is that part of the module scope: \<open>None\<close> for a name nothing binds.
\<close>

record 'a globals =
  gl_example_input :: "'a tensor option"
  gl_d :: "string option"
  gl_rnn_cell :: "string option"
  gl_in_dim :: "nat option"
  gl_pack_padded_sequence :: "('a tensor \<Rightarrow> nat list \<Rightarrow> py_error + 'a packed) option"
  gl_pad_packed_sequence :: "('a packed \<Rightarrow> py_error + ('a tensor \<times> nat list)) option"
  gl_state :: "'a tensor list option"
  gl_bs :: "nat option"
  gl_enc_len :: "nat list option"
  gl_dim :: "nat option"

text \<open>
  The module scope as \<^verbatim>\<open>module.py\<close> itself leaves it: the file binds \<^verbatim>\<open>torch\<close>,
  \<^verbatim>\<open>np\<close>, \<^verbatim>\<open>nn\<close> and its class names, and none of the names above.
\<close>

definition module_globals :: "'a globals" where
  "module_globals =
     \<lparr> gl_example_input = None, gl_d = None, gl_rnn_cell = None, gl_in_dim = None,
       gl_pack_padded_sequence = None, gl_pad_packed_sequence = None, gl_state = None,
       gl_bs = None, gl_enc_len = None, gl_dim = None \<rparr>"

text \<open>
  Executing the module body: three imports, then four class statements. A class
  statement evaluates its base-class expression \<^verbatim>\<open>nn.<base>\<close> and, if that succeeds,
  binds the class name. The result is the list of names bound.
\<close>

definition class_stmt :: "'a torch_nn \<Rightarrow> string \<Rightarrow> string \<Rightarrow> string list \<Rightarrow> py_error + string list" where
  "class_stmt nn base name ns = bindE (nn_getattr nn base) (\<lambda>_. Inr (ns @ [name]))"

definition VGGExtractor_class :: "'a torch_nn \<Rightarrow> string list \<Rightarrow> py_error + string list" where
  "VGGExtractor_class nn ns = class_stmt nn ''Module'' ''VGGExtractor'' ns"

definition RNNLayer_class :: "'a torch_nn \<Rightarrow> string list \<Rightarrow> py_error + string list" where
  "RNNLayer_class nn ns = class_stmt nn ''Module'' ''RNNLayer'' ns"

definition ScaleDotAttention_class :: "'a torch_nn \<Rightarrow> string list \<Rightarrow> py_error + string list" where
  "ScaleDotAttention_class nn ns = class_stmt nn ''module'' ''ScaleDotAttention'' ns"

definition LocationAwareAttention_class :: "'a torch_nn \<Rightarrow> string list \<Rightarrow> py_error + string list" where
  "LocationAwareAttention_class nn ns = class_stmt nn ''module'' ''LocationAwareAttention'' ns"

definition exec_module :: "'a torch_nn \<Rightarrow> py_error + string list" where
  "exec_module nn =
     bindE (VGGExtractor_class nn [''torch'', ''np'', ''nn'']) (\<lambda>ns.
     bindE (RNNLayer_class nn ns) (\<lambda>ns.
     bindE (ScaleDotAttention_class nn ns) (\<lambda>ns.
     LocationAwareAttention_class nn ns)))"


text \<open>
  A concrete \<^verbatim>\<open>torch.nn\<close> for evaluating the model: the names the file uses (and
  the recurrent cells), and constructors that build identity layers.
\<close>

definition nn_example :: "real torch_nn" where
  "nn_example =
     \<lparr> nn_attrs = [''Module'', ''Sequential'', ''Conv2d'', ''ReLU'', ''MaxPool2d'', ''RNN'',
         ''LSTM'', ''GRU'', ''LayerNorm'', ''Dropout'', ''Softmax'', ''Conv1d'', ''Linear''],
       nn_vgg_stack = (\<lambda>_. Inr Inr),
       nn_recurrent = (\<lambda>_ _ _ _. Inr (\<lambda>x h. Inr (x, h))),
       nn_LayerNorm = (\<lambda>_. Inr Inr),
       nn_Dropout = (\<lambda>_. Inr Inr),
       nn_Conv1d = (\<lambda>_ _ _ _. Inr Inr),
       nn_Linear = (\<lambda>_ _. Inr Inr) \<rparr>"


section \<open>VGGExtractor\<close>

record 'a VGGExtractor =
  vgg_in_channel :: nat
  vgg_freq_dim :: nat
  vgg_out_dim :: nat
  vgg_extractor :: "'a layer"

text \<open>Lines 30 to 37 of \<^verbatim>\<open>check_dim\<close>: the branches on the dimension it examines.\<close>

definition check_dim_branches :: "'a globals \<Rightarrow> nat \<Rightarrow> py_error + (nat \<times> nat \<times> nat)" where
  "check_dim_branches g input_dim =
     (if input_dim mod 13 = 0 then
        bindE (int_truediv input_dim 13) (\<lambda>c. Inr (c, 13, (13 div 4) * 128))
      else if input_dim mod 40 = 0 then
        bindE (int_truediv input_dim 40) (\<lambda>c. Inr (c, 40, (40 div 4) * 128))
      else
        bindE (lookup_name ''d'' (gl_d g)) (\<lambda>d.
        Inl (ValueError (''Acoustic feature dimension for VGG should be 13/26/39(MFCC) or 40/80/120(Fbank) but got '' @ d))))"

text \<open>
  \<^verbatim>\<open>check_dim\<close>: line 29 overwrites the parameter with
  \<^verbatim>\<open>example_input.shape[-1]\<close> before the branches run.
\<close>

definition check_dim :: "'a globals \<Rightarrow> nat \<Rightarrow> py_error + (nat \<times> nat \<times> nat)" where
  "check_dim g input_dim =
     bindE (lookup_name ''example_input'' (gl_example_input g)) (\<lambda>example_input.
     if shape example_input = [] then Inl (IndexError ''tuple index out of range'')
     else
       let input_dim = last (shape example_input) in
       check_dim_branches g input_dim)"

definition VGGExtractor_init :: "'a torch_nn \<Rightarrow> 'a globals \<Rightarrow> nat \<Rightarrow> py_error + 'a VGGExtractor" where
  "VGGExtractor_init nn g input_dim =
     bindE (check_dim g input_dim) (\<lambda>(in_channel, freq_dim, out_dim).
     bindE (nn_vgg_stack nn in_channel) (\<lambda>extractor.
     Inr \<lparr> vgg_in_channel = in_channel, vgg_freq_dim = freq_dim, vgg_out_dim = out_dim,
           vgg_extractor = extractor \<rparr>))"


text \<open>
  \<^verbatim>\<open>view_input\<close>. The lengths are a tensor of non-negative integers, here a list of
  naturals.
\<close>

definition view_input :: "'a VGGExtractor \<Rightarrow> 'a tensor \<Rightarrow> nat list \<Rightarrow> py_error + ('a tensor \<times> nat list)" where
  "view_input self feature feat_len =
     (let feat_len = map (\<lambda>l. l div 4) feat_len in
      bindE (shape_at feature 1) (\<lambda>t1.
      bindE (if t1 mod 4 \<noteq> 0 then slice_drop_last feature (t1 mod 4) else Inr feature) (\<lambda>feature.
      bindE (unpack3 feature) (\<lambda>(bs, ts, ds).
      bindE (view feature [bs, ts, vgg_in_channel self, vgg_freq_dim self]) (\<lambda>feature.
      bindE (transpose_1_2 feature) (\<lambda>feature.
      Inr (feature, feat_len)))))))"

definition VGGExtractor_forward :: "'a VGGExtractor \<Rightarrow> 'a tensor \<Rightarrow> nat list \<Rightarrow> py_error + ('a tensor \<times> nat list)" where
  "VGGExtractor_forward self feature feat_len =
     bindE (view_input self feature feat_len) (\<lambda>(feature, feat_len).
     bindE (vgg_extractor self feature) (\<lambda>feature.
     bindE (transpose_1_2 feature) (\<lambda>feature.
     bindE (shape_at feature 0) (\<lambda>s0.
     bindE (shape_at feature 1) (\<lambda>s1.
     bindE (view feature [s0, s1, vgg_out_dim self]) (\<lambda>feature.
     Inr (feature, feat_len)))))))"

text \<open>
  What \<^verbatim>\<open>torch\<close> gives for the stack of lines 14 to 25 at the level of shapes: on a
  non-empty batch with the expected channel count, each convolution (kernel 3, stride 1,
  padding 1) keeps the time and frequency sizes, each \<^verbatim>\<open>MaxPool2d(2, stride=2)\<close>
  halves both rounding down, and the stack ends with 128 channels. Sizes below 4 leave
  a pooling stage without a full window; nothing is assumed there.
\<close>

definition vgg_stack_shapes :: "'a VGGExtractor \<Rightarrow> bool" where
  "vgg_stack_shapes self =
     (\<forall>x n h w. shape x = [n, vgg_in_channel self, h, w] \<and> 0 < n \<and> 4 \<le> h \<and> 4 \<le> w \<longrightarrow>
        (\<exists>y. vgg_extractor self x = Inr y \<and> shape y = [n, 128, h div 2 div 2, w div 2 div 2]))"

text \<open>An instance for evaluating the model: 3 channels of 13, a stack that outputs zeros.\<close>

definition vgg_example :: "real VGGExtractor" where
  "vgg_example =
     \<lparr> vgg_in_channel = 3, vgg_freq_dim = 13, vgg_out_dim = 384,
       vgg_extractor = (\<lambda>x. case shape x of
           [n, c, h, w] \<Rightarrow> Inr \<lparr> shape = [n, 128, h div 2 div 2, w div 2 div 2], elem = (\<lambda>_. 0) \<rparr>
         | _ \<Rightarrow> Inl (RuntimeError ''Expected 4D input'')) \<rparr>"

text \<open>A batch of one utterance with 17 frames of 39 features, all distinct.\<close>

definition feature_17 :: "real tensor" where
  "feature_17 = \<lparr> shape = [1, 17, 39], elem = (\<lambda>i. real (i ! 1 * 39 + i ! 2)) \<rparr>"


section \<open>RNNLayer\<close>

record 'a RNNLayer =
  rnn_out_dim :: nat
  rnn_dropout :: real
  rnn_layer_norm :: bool
  rnn_sample_rate :: nat
  rnn_sample_style :: string
  rnn_layer :: "'a rnn"
  rnn_ln :: "'a layer option"
  rnn_dp :: "'a layer option"

text \<open>\<^verbatim>\<open>str.upper\<close> on the ASCII letters.\<close>

definition upper :: "string \<Rightarrow> string" where
  "upper s = map (\<lambda>c. if 97 \<le> (of_char c :: nat) \<and> (of_char c :: nat) \<le> 122
                         then char_of ((of_char c :: nat) - 32) else c) s"

text \<open>Lines 69 and 70 of \<^verbatim>\<open>__init__\<close> (the parameters \<^verbatim>\<open>dim\<close> and \<^verbatim>\<open>module\<close> are written \<open>dim'\<close> and \<open>module'\<close>).\<close>

definition RNNLayer_rnn_out_dim :: "nat \<Rightarrow> bool \<Rightarrow> nat" where
  "RNNLayer_rnn_out_dim dim' bidirection = (if bidirection then 2 * dim' else dim')"

definition RNNLayer_out_dim :: "nat \<Rightarrow> bool \<Rightarrow> nat \<Rightarrow> string \<Rightarrow> nat" where
  "RNNLayer_out_dim dim' bidirection sample_rate sample_style =
     (let rnn_out_dim = RNNLayer_rnn_out_dim dim' bidirection in
      if 1 < sample_rate \<and> sample_style = ''concat'' then sample_rate * rnn_out_dim
      else rnn_out_dim)"

definition RNNLayer_init ::
  "'a torch_nn \<Rightarrow> 'a globals \<Rightarrow> nat \<Rightarrow> string \<Rightarrow> nat \<Rightarrow> bool \<Rightarrow> real \<Rightarrow> bool \<Rightarrow> nat \<Rightarrow> string
     \<Rightarrow> py_error + 'a RNNLayer" where
  "RNNLayer_init nn g input_dim module' dim' bidirection dropout layer_norm sample_rate sample_style =
     (let rnn_out_dim = RNNLayer_rnn_out_dim dim' bidirection;
          out_dim = RNNLayer_out_dim dim' bidirection sample_rate sample_style in
      if sample_style \<notin> set [''drop'', ''concat''] then
        Inl (ValueError (''Unsupported Sample Style: '' @ sample_style))
      else
        bindE (lookup_name ''rnn_cell'' (gl_rnn_cell g)) (\<lambda>rnn_cell.
        bindE (nn_getattr nn (upper rnn_cell)) (\<lambda>cell.
        bindE (lookup_name ''in_dim'' (gl_in_dim g)) (\<lambda>in_dim.
        bindE (nn_recurrent nn cell in_dim dim' bidirection) (\<lambda>layer.
        bindE (if layer_norm then bindE (nn_LayerNorm nn rnn_out_dim) (\<lambda>l. Inr (Some l)) else Inr None) (\<lambda>ln.
        bindE (if 0 < dropout then bindE (nn_Dropout nn dropout) (\<lambda>l. Inr (Some l)) else Inr None) (\<lambda>dp.
        Inr \<lparr> rnn_out_dim = out_dim, rnn_dropout = dropout, rnn_layer_norm = layer_norm,
              rnn_sample_rate = sample_rate, rnn_sample_style = sample_style,
              rnn_layer = layer, rnn_ln = ln, rnn_dp = dp \<rparr>)))))))"

text \<open>Lines 92 to 100 of \<^verbatim>\<open>forward\<close>: the recurrent pass, normalization and dropout.\<close>

definition RNNLayer_recurrent :: "'a globals \<Rightarrow> 'a RNNLayer \<Rightarrow> 'a tensor \<Rightarrow> nat list \<Rightarrow> py_error + ('a tensor \<times> nat list)" where
  "RNNLayer_recurrent g self input_x x_len =
     bindE (lookup_name ''pack_padded_sequence'' (gl_pack_padded_sequence g)) (\<lambda>pack_padded_sequence.
     bindE (pack_padded_sequence input_x x_len) (\<lambda>input_x.
     bindE (lookup_name ''state'' (gl_state g)) (\<lambda>state.
     bindE (rnn_layer self input_x state) (\<lambda>(output, _).
     bindE (lookup_name ''pad_packed_sequence'' (gl_pad_packed_sequence g)) (\<lambda>pad_packed_sequence.
     bindE (pad_packed_sequence output) (\<lambda>(output, x_len).
     bindE (if rnn_layer_norm self then bindE (lookup_attr ''ln'' (rnn_ln self)) (\<lambda>ln. ln output)
            else Inr output) (\<lambda>output.
     bindE (if 0 < rnn_dropout self then bindE (lookup_attr ''dp'' (rnn_dp self)) (\<lambda>dp. dp output)
            else Inr output) (\<lambda>output.
     Inr (output, x_len)))))))))"

text \<open>Lines 103 to 116 of \<^verbatim>\<open>forward\<close>: the downsampling of the recurrent output.\<close>

definition RNNLayer_downsample :: "'a RNNLayer \<Rightarrow> 'a tensor \<Rightarrow> nat list \<Rightarrow> py_error + ('a tensor \<times> nat list)" where
  "RNNLayer_downsample self output x_len =
     (if 1 < rnn_sample_rate self then
        bindE (unpack3 output) (\<lambda>(batch_size, timestep, feature_dim).
        let x_len = map (\<lambda>l. l div rnn_sample_rate self) x_len in
        if rnn_sample_style self = ''drop'' then
          bindE (slice_step output (rnn_sample_rate self)) (\<lambda>output. Inr (output, x_len))
        else
          bindE (if timestep mod rnn_sample_rate self \<noteq> 0
                 then slice_drop_last output (timestep mod rnn_sample_rate self)
                 else Inr output) (\<lambda>output.
          bindE (int_truediv timestep (rnn_sample_rate self)) (\<lambda>n.
          bindE (view output [batch_size, n, feature_dim * rnn_sample_rate self]) (\<lambda>output.
          Inr (output, x_len)))))
      else Inr (output, x_len))"

definition RNNLayer_forward :: "'a globals \<Rightarrow> 'a RNNLayer \<Rightarrow> 'a tensor \<Rightarrow> nat list \<Rightarrow> py_error + ('a tensor \<times> nat list)" where
  "RNNLayer_forward g self input_x x_len =
     bindE (RNNLayer_recurrent g self input_x x_len) (\<lambda>(output, x_len).
     RNNLayer_downsample self output x_len)"

text \<open>
  For evaluating the model: a module scope in which the three names of the recurrent
  pass are bound (packing and unpacking that keep the data as it is), and a layer with
  sample rate 3 and style \<^verbatim>\<open>concat\<close> whose recurrent cell is the identity.
\<close>

definition globals_rnn_example :: "real globals" where
  "globals_rnn_example =
     module_globals \<lparr> gl_pack_padded_sequence := Some (\<lambda>x l. Inr (x, l)),
                      gl_pad_packed_sequence := Some Inr,
                      gl_state := Some [] \<rparr>"

definition rnn_example :: "real RNNLayer" where
  "rnn_example =
     \<lparr> rnn_out_dim = 6, rnn_dropout = 0, rnn_layer_norm = False, rnn_sample_rate = 3,
       rnn_sample_style = ''concat'', rnn_layer = (\<lambda>x h. Inr (x, h)),
       rnn_ln = None, rnn_dp = None \<rparr>"

text \<open>A batch of one sequence with 10 timesteps of 2 features, all distinct.\<close>

definition output_10 :: "real tensor" where
  "output_10 = \<lparr> shape = [1, 10, 2], elem = (\<lambda>i. real (i ! 1 * 2 + i ! 2)) \<rparr>"


section \<open>Floats with infinities, and the arithmetic of tensors\<close>

text \<open>
  The entries of the attention tensors: floats idealised as reals (no rounding, no
  overflow, no signed zero), with the two infinities (\<open>Infty True\<close> is \<open>+inf\<close>) and
  \<open>NaN\<close>, combined as IEEE 754 combines them.
\<close>

datatype fp = Fin real | Infty bool | NaN

fun fp_add :: "fp \<Rightarrow> fp \<Rightarrow> fp" where
  "fp_add (Fin a) (Fin b) = Fin (a + b)"
| "fp_add (Fin a) (Infty s) = Infty s"
| "fp_add (Infty s) (Fin b) = Infty s"
| "fp_add (Infty s) (Infty t) = (if s = t then Infty s else NaN)"
| "fp_add _ _ = NaN"

fun fp_neg :: "fp \<Rightarrow> fp" where
  "fp_neg (Fin a) = Fin (- a)"
| "fp_neg (Infty s) = Infty (\<not> s)"
| "fp_neg NaN = NaN"

definition fp_sub :: "fp \<Rightarrow> fp \<Rightarrow> fp" where
  "fp_sub a b = fp_add a (fp_neg b)"

fun fp_mul :: "fp \<Rightarrow> fp \<Rightarrow> fp" where
  "fp_mul (Fin a) (Fin b) = Fin (a * b)"
| "fp_mul (Fin a) (Infty s) = (if a = 0 then NaN else Infty (s = (0 < a)))"
| "fp_mul (Infty s) (Fin b) = (if b = 0 then NaN else Infty (s = (0 < b)))"
| "fp_mul (Infty s) (Infty t) = Infty (s = t)"
| "fp_mul _ _ = NaN"

fun fp_div :: "fp \<Rightarrow> fp \<Rightarrow> fp" where
  "fp_div (Fin a) (Fin b) =
     (if b \<noteq> 0 then Fin (a / b) else if a = 0 then NaN else Infty (0 < a))"
| "fp_div (Fin a) (Infty s) = Fin 0"
| "fp_div (Infty s) (Fin b) = Infty (s = (0 \<le> b))"
| "fp_div _ _ = NaN"

fun fp_exp :: "fp \<Rightarrow> fp" where
  "fp_exp (Fin a) = Fin (exp a)"
| "fp_exp (Infty s) = (if s then Infty True else Fin 0)"
| "fp_exp NaN = NaN"

fun fp_tanh :: "fp \<Rightarrow> fp" where
  "fp_tanh (Fin a) = Fin (tanh a)"
| "fp_tanh (Infty s) = Fin (if s then 1 else - 1)"
| "fp_tanh NaN = NaN"

fun fp_max :: "fp \<Rightarrow> fp \<Rightarrow> fp" where
  "fp_max (Fin a) (Fin b) = Fin (max a b)"
| "fp_max (Fin a) (Infty s) = (if s then Infty True else Fin a)"
| "fp_max (Infty s) (Fin b) = (if s then Infty True else Fin b)"
| "fp_max (Infty s) (Infty t) = Infty (s \<or> t)"
| "fp_max _ _ = NaN"

definition fp_sum :: "fp list \<Rightarrow> fp" where
  "fp_sum xs = foldl fp_add (Fin 0) xs"

text \<open>
  Softmax of a vector as \<^verbatim>\<open>torch\<close> computes it: shift by the maximum, exponentiate,
  divide by the sum. A vector of \<open>-inf\<close> alone gives \<open>NaN\<close> everywhere.
\<close>

definition softmax_list :: "fp list \<Rightarrow> fp list" where
  "softmax_list xs =
     (case xs of
        [] \<Rightarrow> []
      | x # r \<Rightarrow>
          let m = foldl fp_max x r;
              es = map (\<lambda>y. fp_exp (fp_sub y m)) xs;
              s = fp_sum es
          in map (\<lambda>e. fp_div e s) es)"

definition map_tensor :: "('a \<Rightarrow> 'b) \<Rightarrow> 'a tensor \<Rightarrow> 'b tensor" where
  "map_tensor f t = \<lparr> shape = shape t, elem = (\<lambda>i. f (elem t i)) \<rparr>"

text \<open>\<^verbatim>\<open>torch.zeros(shape)\<close>\<close>

definition zeros :: "nat list \<Rightarrow> fp tensor" where
  "zeros s = \<lparr> shape = s, elem = (\<lambda>_. Fin 0) \<rparr>"

text \<open>\<^verbatim>\<open>torch.bmm(a, b)\<close>: both of rank 3, same batch, inner sizes equal.\<close>

definition bmm :: "fp tensor \<Rightarrow> fp tensor \<Rightarrow> py_error + fp tensor" where
  "bmm a b =
     (case (shape a, shape b) of
        ([ba, n, m], [bb, m', p]) \<Rightarrow>
          if ba = bb \<and> m = m' then
            Inr \<lparr> shape = [ba, n, p],
                  elem = (\<lambda>i. fp_sum (map (\<lambda>l. fp_mul (elem a [i ! 0, i ! 1, l]) (elem b [i ! 0, l, i ! 2]))
                                        [0..<m])) \<rparr>
          else Inl (RuntimeError ''batch1 and batch2 must have compatible sizes'')
      | _ \<Rightarrow> Inl (RuntimeError ''batch1 and batch2 must be 3D tensors''))"

text \<open>\<^verbatim>\<open>nn.Softmax(dim=d)(t)\<close>: softmax along axis \<open>d\<close>, every other index fixed.\<close>

definition softmax_dim :: "nat \<Rightarrow> fp tensor \<Rightarrow> py_error + fp tensor" where
  "softmax_dim d t =
     (if d < length (shape t) then
        Inr \<lparr> shape = shape t,
              elem = (\<lambda>i. softmax_list (map (\<lambda>l. elem t (i[d := l])) [0..<shape t ! d]) ! (i ! d)) \<rparr>
      else Inl (IndexError ''Dimension out of range''))"

text \<open>
  Broadcasting: shapes are aligned at their last axes; two sizes are compatible when
  they are equal or one of them is 1.
\<close>

fun broadcast_rev :: "nat list \<Rightarrow> nat list \<Rightarrow> nat list option" where
  "broadcast_rev [] ys = Some ys"
| "broadcast_rev (x # xs) [] = Some (x # xs)"
| "broadcast_rev (x # xs) (y # ys) =
     (if x = y \<or> y = 1 then map_option ((#) x) (broadcast_rev xs ys)
      else if x = 1 then map_option ((#) y) (broadcast_rev xs ys)
      else None)"

definition broadcast_shapes :: "nat list \<Rightarrow> nat list \<Rightarrow> nat list option" where
  "broadcast_shapes a b = map_option rev (broadcast_rev (rev a) (rev b))"

text \<open>The index at which an operand of shape \<open>s\<close> is read for the result index \<open>i\<close>.\<close>

definition expand_index :: "nat list \<Rightarrow> nat list \<Rightarrow> nat list" where
  "expand_index s i = map2 (\<lambda>n j. if n = 1 then 0 else j) s (drop (length i - length s) i)"

text \<open>\<^verbatim>\<open>a + b\<close>\<close>

definition add_tensor :: "fp tensor \<Rightarrow> fp tensor \<Rightarrow> py_error + fp tensor" where
  "add_tensor a b =
     (case broadcast_shapes (shape a) (shape b) of
        None \<Rightarrow> Inl (RuntimeError ''The size of tensor a must match the size of tensor b'')
      | Some s \<Rightarrow>
          Inr \<lparr> shape = s,
                elem = (\<lambda>i. fp_add (elem a (expand_index (shape a) i)) (elem b (expand_index (shape b) i))) \<rparr>)"

text \<open>
  \<^verbatim>\<open>t.masked_fill(mask, v)\<close> broadcasts tensor and mask to a common shape;
  \<^verbatim>\<open>t.masked_fill_(mask, v)\<close> works in place and needs the mask to expand to the
  shape of \<open>t\<close>.
\<close>

definition masked_fill :: "fp tensor \<Rightarrow> bool tensor \<Rightarrow> fp \<Rightarrow> py_error + fp tensor" where
  "masked_fill t mask' v =
     (case broadcast_shapes (shape t) (shape mask') of
        None \<Rightarrow> Inl (RuntimeError ''The size of tensor a must match the size of tensor b'')
      | Some s \<Rightarrow>
          Inr \<lparr> shape = s,
                elem = (\<lambda>i. if elem mask' (expand_index (shape mask') i) then v
                            else elem t (expand_index (shape t) i)) \<rparr>)"

definition masked_fill_inplace :: "fp tensor \<Rightarrow> bool tensor \<Rightarrow> fp \<Rightarrow> py_error + fp tensor" where
  "masked_fill_inplace t mask' v =
     (if broadcast_shapes (shape t) (shape mask') = Some (shape t) then
        Inr \<lparr> shape = shape t,
              elem = (\<lambda>i. if elem mask' (expand_index (shape mask') i) then v else elem t i) \<rparr>
      else Inl (RuntimeError ''The size of tensor a must match the size of tensor b''))"

text \<open>\<^verbatim>\<open>t.unsqueeze(1)\<close>\<close>

definition unsqueeze_1 :: "'a tensor \<Rightarrow> py_error + 'a tensor" where
  "unsqueeze_1 t =
     (if shape t = [] then Inl (IndexError ''Dimension out of range'')
      else Inr \<lparr> shape = take 1 (shape t) @ [1] @ drop 1 (shape t),
                 elem = (\<lambda>i. elem t (take 1 i @ drop 2 i)) \<rparr>)"

text \<open>\<^verbatim>\<open>t.squeeze(2)\<close>\<close>

definition squeeze_2 :: "'a tensor \<Rightarrow> py_error + 'a tensor" where
  "squeeze_2 t =
     (if length (shape t) < 3 then Inl (IndexError ''Dimension out of range'')
      else if shape t ! 2 = 1 then
        Inr \<lparr> shape = take 2 (shape t) @ drop 3 (shape t),
              elem = (\<lambda>i. elem t (take 2 i @ [0] @ drop 2 i)) \<rparr>
      else Inr t)"

text \<open>\<^verbatim>\<open>t.repeat(*reps)\<close>: at least as many repeats as axes; missing axes are added in front.\<close>

definition repeat_tensor :: "'a tensor \<Rightarrow> nat list \<Rightarrow> py_error + 'a tensor" where
  "repeat_tensor t reps =
     (if length reps < length (shape t) then
        Inl (RuntimeError ''Number of dimensions of repeat dims can not be smaller than number of dimensions of tensor'')
      else
        let k = length reps - length (shape t);
            s = replicate k 1 @ shape t
        in Inr \<lparr> shape = map2 (*) s reps,
                  elem = (\<lambda>i. elem t (drop k (map2 (\<lambda>j n. j mod n) i s))) \<rparr>)"

text \<open>
  \<^verbatim>\<open>t.view(*pre, -1, *post)\<close>: the size at \<open>-1\<close> is inferred from the other sizes.
\<close>

definition view_infer :: "'a tensor \<Rightarrow> nat list \<Rightarrow> nat list \<Rightarrow> py_error + 'a tensor" where
  "view_infer t pre post =
     (let other = prod_list (pre @ post) in
      if other = 0 \<or> numel t mod other \<noteq> 0 then
        Inl (RuntimeError ''shape is invalid for input size'')
      else view t (pre @ [numel t div other] @ post))"

text \<open>
  \<^verbatim>\<open>t[idx,:,:sl] = v\<close> on a tensor of rank 3, for \<open>sl \<ge> 0\<close>: the slice stops at the end
  of the axis.
\<close>

definition assign_row_prefix :: "'a tensor \<Rightarrow> nat \<Rightarrow> nat \<Rightarrow> 'a \<Rightarrow> py_error + 'a tensor" where
  "assign_row_prefix t idx sl v =
     (case shape t of
        [a, b, c] \<Rightarrow>
          if idx < a then
            Inr (t \<lparr> elem := (\<lambda>i. if i ! 0 = idx \<and> i ! 2 < sl then v else elem t i) \<rparr>)
          else Inl (IndexError ''index is out of bounds for dimension 0'')
      | _ \<Rightarrow> Inl (IndexError ''too many indices for tensor''))"

text \<open>Reading a local variable: \<open>UnboundLocalError\<close> when no assignment came before.\<close>

definition lookup_local :: "string \<Rightarrow> 'v option \<Rightarrow> py_error + 'v" where
  "lookup_local n b = (case b of None \<Rightarrow> Inl (UnboundLocalError n) | Some v \<Rightarrow> Inr v)"


section \<open>ScaleDotAttention\<close>

text \<open>
  \<^verbatim>\<open>__init__\<close> sets \<^verbatim>\<open>temperature\<close> and \<^verbatim>\<open>softmax = nn.Softmax(dim=1)\<close> (kept as its
  axis). \<^verbatim>\<open>forward\<close> reads \<^verbatim>\<open>self.num_head\<close>, which \<^verbatim>\<open>__init__\<close> does not set:
  \<open>None\<close> is the attribute absent.
\<close>

record ScaleDotAttention =
  sda_temperature :: real
  sda_softmax :: nat
  sda_num_head :: "nat option"

definition ScaleDotAttention_init :: "real \<Rightarrow> ScaleDotAttention" where
  "ScaleDotAttention_init temperature =
     \<lparr> sda_temperature = temperature, sda_softmax = 1, sda_num_head = None \<rparr>"

text \<open>Lines 127 to 133 of \<^verbatim>\<open>forward\<close>: the attention weights.\<close>

definition ScaleDotAttention_weights ::
  "ScaleDotAttention \<Rightarrow> fp tensor \<Rightarrow> fp tensor \<Rightarrow> bool tensor option \<Rightarrow> py_error + fp tensor" where
  "ScaleDotAttention_weights self q k mask' =
     bindE (transpose_1_2 k) (\<lambda>kt.
     bindE (bmm q kt) (\<lambda>attn.
     let attn = map_tensor (\<lambda>x. fp_div x (Fin (sda_temperature self))) attn in
     bindE (case mask' of None \<Rightarrow> Inr attn | Some m \<Rightarrow> masked_fill attn m (Infty False)) (\<lambda>attn.
     softmax_dim (sda_softmax self) attn)))"

definition ScaleDotAttention_forward ::
  "fp globals \<Rightarrow> ScaleDotAttention \<Rightarrow> fp tensor \<Rightarrow> fp tensor \<Rightarrow> fp tensor \<Rightarrow> bool tensor option
     \<Rightarrow> py_error + (fp tensor \<times> fp tensor)" where
  "ScaleDotAttention_forward g self q k v mask' =
     bindE (ScaleDotAttention_weights self q k mask') (\<lambda>attn.
     bindE (bmm attn v) (\<lambda>output.
     bindE (lookup_name ''bs'' (gl_bs g)) (\<lambda>bs.
     bindE (lookup_attr ''num_head'' (sda_num_head self)) (\<lambda>num_head.
     bindE (view_infer attn [bs, num_head] []) (\<lambda>attn.
     Inr (output, attn))))))"

text \<open>
  For evaluating the model: one query against five keys of dimension 1, and a mask that
  marks every key invalid except the one at index 2.
\<close>

definition query_1 :: "fp tensor" where
  "query_1 = \<lparr> shape = [1, 1, 1], elem = (\<lambda>_. Fin 1) \<rparr>"

definition keys_5 :: "fp tensor" where
  "keys_5 = \<lparr> shape = [1, 5, 1], elem = (\<lambda>i. Fin (real (i ! 1))) \<rparr>"

definition mask_all_but_2 :: "bool tensor" where
  "mask_all_but_2 = \<lparr> shape = [1, 1, 5], elem = (\<lambda>i. i ! 2 \<noteq> 2) \<rparr>"


section \<open>LocationAwareAttention\<close>

text \<open>
  The attributes \<^verbatim>\<open>__init__\<close> sets, and \<^verbatim>\<open>k\<close>, which \<^verbatim>\<open>forward\<close> reads as
  \<^verbatim>\<open>self.k\<close> and no method sets (\<open>None\<close>: absent). \<^verbatim>\<open>prev_att\<close> is \<open>None\<close> for
  Python's \<^verbatim>\<open>None\<close>.
\<close>

record LocationAwareAttention =
  laa_temperature :: real
  laa_num_head :: nat
  laa_softmax :: nat
  laa_prev_att :: "fp tensor option"
  laa_loc_conv :: "fp layer"
  laa_loc_proj :: "fp layer"
  laa_gen_energy :: "fp layer"
  laa_k :: "fp tensor option"

definition LocationAwareAttention_init ::
  "fp torch_nn \<Rightarrow> nat \<Rightarrow> nat \<Rightarrow> nat \<Rightarrow> nat \<Rightarrow> real \<Rightarrow> py_error + LocationAwareAttention" where
  "LocationAwareAttention_init nn kernel_size kernel_num dim' num_head temperature =
     bindE (nn_Conv1d nn num_head kernel_num (2 * kernel_size + 1) kernel_size) (\<lambda>loc_conv.
     bindE (nn_Linear nn kernel_num dim') (\<lambda>loc_proj.
     bindE (nn_Linear nn dim' 1) (\<lambda>gen_energy.
     Inr \<lparr> laa_temperature = temperature, laa_num_head = num_head, laa_softmax = 1,
           laa_prev_att = None, laa_loc_conv = loc_conv, laa_loc_proj = loc_proj,
           laa_gen_energy = gen_energy, laa_k = None \<rparr>)))"

definition reset_mem :: "LocationAwareAttention \<Rightarrow> LocationAwareAttention" where
  "reset_mem self = self \<lparr> laa_prev_att := None \<rparr>"

text \<open>
  Lines 160 and 161: the loop over \<^verbatim>\<open>enumerate(enc_len)\<close>, writing into the tensor
  that \<^verbatim>\<open>self.prev_att\<close> holds. The result is the tensor as the loop leaves it, also
  when it raises.
\<close>

fun fill_uniform :: "fp tensor \<Rightarrow> (nat \<times> nat) list \<Rightarrow> (py_error + unit) \<times> fp tensor" where
  "fill_uniform p [] = (Inr (), p)"
| "fill_uniform p ((idx, sl) # rest) =
     (if sl = 0 then (Inl ZeroDivisionError, p)
      else case assign_row_prefix p idx sl (Fin (1 / real sl)) of
             Inl e \<Rightarrow> (Inl e, p)
           | Inr p' \<Rightarrow> fill_uniform p' rest)"

text \<open>Lines 158 to 161: the lazy initialization of \<^verbatim>\<open>prev_att\<close>.\<close>

definition init_prev_att ::
  "fp globals \<Rightarrow> LocationAwareAttention \<Rightarrow> nat \<Rightarrow> (py_error + unit) \<times> LocationAwareAttention" where
  "init_prev_att g self ts =
     (case laa_prev_att self of
        Some _ \<Rightarrow> (Inr (), self)
      | None \<Rightarrow>
          (case gl_bs g of
             None \<Rightarrow> (Inl (NameError ''bs''), self)
           | Some bs \<Rightarrow>
               let p = zeros [bs, laa_num_head self, ts];
                   self = self \<lparr> laa_prev_att := Some p \<rparr>
               in
               (case gl_enc_len g of
                  None \<Rightarrow> (Inl (NameError ''enc_len''), self)
                | Some enc_len \<Rightarrow>
                    (case fill_uniform p (zip [0..<length enc_len] enc_len) of
                       (r, p) \<Rightarrow> (r, self \<lparr> laa_prev_att := Some p \<rparr>)))))"

text \<open>
  Lines 173 to 175: from the softmax on. \<open>attn\<close> is the local variable \<^verbatim>\<open>attn\<close> as it
  stands when line 173 reads it.
\<close>

definition attend_finish ::
  "fp globals \<Rightarrow> LocationAwareAttention \<Rightarrow> fp tensor option \<Rightarrow> fp tensor
     \<Rightarrow> py_error + (fp tensor \<times> fp tensor)" where
  "attend_finish g self attn v =
     bindE (lookup_local ''attn'' attn) (\<lambda>attn.
     bindE (softmax_dim (laa_softmax self) attn) (\<lambda>attn.
     bindE (bmm attn v) (\<lambda>output.
     bindE (lookup_name ''bs'' (gl_bs g)) (\<lambda>bs.
     bindE (view_infer attn [bs, laa_num_head self] []) (\<lambda>attn.
     Inr (output, attn))))))"

text \<open>
  Lines 164 to 175. \<^verbatim>\<open>attn\<close> is assigned in the function (lines 173 and 175), so it is
  a local variable, and nothing assigns it before line 173 reads it.
\<close>

definition attend ::
  "fp globals \<Rightarrow> LocationAwareAttention \<Rightarrow> fp tensor \<Rightarrow> fp tensor \<Rightarrow> bool tensor option \<Rightarrow> nat
     \<Rightarrow> py_error + (fp tensor \<times> fp tensor)" where
  "attend g self q v mask' ts =
     bindE (lookup_attr ''prev_att'' (laa_prev_att self)) (\<lambda>prev_att.
     bindE (laa_loc_conv self prev_att) (\<lambda>c.
     bindE (transpose_1_2 c) (\<lambda>c.
     bindE (laa_loc_proj self c) (\<lambda>c.
     let loc_context = map_tensor fp_tanh c in
     bindE (unsqueeze_1 loc_context) (\<lambda>loc_context.
     bindE (repeat_tensor loc_context [1, laa_num_head self, 1, 1]) (\<lambda>loc_context.
     bindE (lookup_name ''dim'' (gl_dim g)) (\<lambda>dim'.
     bindE (view_infer loc_context [] [ts, dim']) (\<lambda>loc_context.
     bindE (unsqueeze_1 q) (\<lambda>q.
     bindE (lookup_attr ''k'' (laa_k self)) (\<lambda>self_k.
     bindE (add_tensor self_k q) (\<lambda>s.
     bindE (add_tensor s loc_context) (\<lambda>s.
     bindE (laa_gen_energy self (map_tensor fp_tanh s)) (\<lambda>e.
     bindE (squeeze_2 e) (\<lambda>energy.
     let energy = map_tensor (\<lambda>x. fp_div x (Fin (laa_temperature self))) energy in
     bindE (case mask' of None \<Rightarrow> Inr energy
                       | Some m \<Rightarrow> masked_fill_inplace energy m (Infty False)) (\<lambda>energy.
     attend_finish g self None v)))))))))))))))"

definition LocationAwareAttention_forward ::
  "fp globals \<Rightarrow> LocationAwareAttention \<Rightarrow> fp tensor \<Rightarrow> fp tensor \<Rightarrow> fp tensor \<Rightarrow> bool tensor option
     \<Rightarrow> (py_error + (fp tensor \<times> fp tensor)) \<times> LocationAwareAttention" where
  "LocationAwareAttention_forward g self q k v mask' =
     (case shape_at k 1 of
        Inl e \<Rightarrow> (Inl e, self)
      | Inr ts \<Rightarrow>
          (case init_prev_att g self ts of
             (Inl e, self) \<Rightarrow> (Inl e, self)
           | (Inr _, self) \<Rightarrow>
               (case attend g self q v mask' ts of
                  Inl e \<Rightarrow> (Inl e, self)
                | Inr (output, attn) \<Rightarrow>
                    (Inr (output, attn), self \<lparr> laa_prev_att := Some attn \<rparr>))))"

text \<open>
  For evaluating the model: an instance with 2 heads and identity layers, keys and
  values for a batch of \<open>n\<close> (times heads) over 5 key positions, and queries.
\<close>

definition laa_example :: LocationAwareAttention where
  "laa_example =
     \<lparr> laa_temperature = 1, laa_num_head = 2, laa_softmax = 1, laa_prev_att = None,
       laa_loc_conv = Inr, laa_loc_proj = Inr, laa_gen_energy = Inr, laa_k = None \<rparr>"

definition keys_of_batch :: "nat \<Rightarrow> fp tensor" where
  "keys_of_batch n = \<lparr> shape = [n * 2, 5, 3], elem = (\<lambda>_. Fin 1) \<rparr>"

definition queries_of_batch :: "nat \<Rightarrow> fp tensor" where
  "queries_of_batch n = \<lparr> shape = [n * 2, 3], elem = (\<lambda>_. Fin 1) \<rparr>"


section \<open>Properties\<close>

lemma bindE_Inl [simp]: "bindE (Inl e) f = Inl e"
  by (simp add: bindE_def)

lemma bindE_Inr [simp]: "bindE (Inr v) f = f v"
  by (simp add: bindE_def)

lemma lookup_name_None [simp]: "lookup_name n None = Inl (NameError n)"
  by (simp add: lookup_name_def)

lemma lookup_name_Some [simp]: "lookup_name n (Some v) = Inr v"
  by (simp add: lookup_name_def)

lemma lookup_attr_None [simp]: "lookup_attr n None = Inl (AttributeError n)"
  by (simp add: lookup_attr_def)

lemma lookup_attr_Some [simp]: "lookup_attr n (Some v) = Inr v"
  by (simp add: lookup_attr_def)

lemma module_globals_simps [simp]:
  "gl_example_input module_globals = None"
  "gl_d module_globals = None"
  "gl_rnn_cell module_globals = None"
  "gl_in_dim module_globals = None"
  "gl_pack_padded_sequence module_globals = None"
  "gl_pad_packed_sequence module_globals = None"
  "gl_state module_globals = None"
  "gl_bs module_globals = None"
  "gl_enc_len module_globals = None"
  "gl_dim module_globals = None"
  by (simp_all add: module_globals_def)


subsection \<open>The float quotient\<close>

lemma ilog2_numeral [simp]:
  "ilog2 (numeral k) = (if numeral k < (2::nat) then 0 else Suc (ilog2 (numeral k div 2)))"
  by (rule ilog2.simps)

lemma ilog2_0 [simp]: "ilog2 0 = 0"
  by (simp add: ilog2.simps)

lemma ilog2_1 [simp]: "ilog2 (Suc 0) = 0"
  by (simp add: ilog2.simps)

lemma ilog2_bounds: "0 < n \<Longrightarrow> 2 ^ ilog2 n \<le> n \<and> n < 2 ^ Suc (ilog2 n)"
proof (induction n rule: ilog2.induct)
  case (1 n)
  show ?case
  proof (cases "n < 2")
    case True
    with 1 show ?thesis by (simp add: ilog2.simps[of n])
  next
    case False
    then have "0 < n div 2" by simp
    with 1 False have ih: "2 ^ ilog2 (n div 2) \<le> n div 2 \<and> n div 2 < 2 ^ Suc (ilog2 (n div 2))"
      by simp
    have e: "ilog2 n = Suc (ilog2 (n div 2))" using False by (simp add: ilog2.simps[of n])
    from ih show ?thesis unfolding e by (simp; linarith)
  qed
qed

lemma round_half_even_exact: "0 < b \<Longrightarrow> round_half_even (q * b) b = q"
  by (simp add: round_half_even_def)

lemma float_exponent_exact_le:
  assumes b: "0 < b" and q: "0 < q" "q < 2 ^ 53"
  shows "float_exponent (q * b) b \<le> 52"
proof -
  let ?a = "q * b"
  let ?d = "ilog2 ?a - ilog2 b"
  have a: "0 < ?a" using b q by simp
  show ?thesis
  proof (cases "b * 2 ^ ?d \<le> ?a")
    case True
    then have "2 ^ ?d \<le> q" using b by (simp add: mult.commute)
    with q have "(2::nat) ^ ?d < 2 ^ 53" by linarith
    then have "?d < 53" by (simp only: power_strict_increasing_iff)
    with True show ?thesis by (simp add: float_exponent_def)
  next
    case False
    have "2 ^ ilog2 ?a \<le> ?a" using ilog2_bounds[OF a] by blast
    also have "?a < 2 ^ 53 * 2 ^ Suc (ilog2 b)"
      using ilog2_bounds[OF b] q b by (meson mult_strict_mono' zero_le)
    finally have "(2::nat) ^ ilog2 ?a < 2 ^ (53 + Suc (ilog2 b))" by (simp add: power_add)
    then have "ilog2 ?a < 53 + Suc (ilog2 b)" by (simp only: power_strict_increasing_iff)
    then have "?d - 1 \<le> 52" by linarith
    with False show ?thesis by (simp add: float_exponent_def)
  qed
qed

text \<open>
  When \<open>b\<close> divides \<open>a\<close> and the quotient is below \<open>2 ^ 53\<close>, the float quotient
  is exact and \<open>int(a/b)\<close> is the quotient.
\<close>

lemma int_truediv_exact:
  assumes b: "0 < b" and q: "q < 2 ^ 53"
  shows "int_truediv (q * b) b = Inr q"
proof (cases "q = 0")
  case True
  with b show ?thesis by (simp add: int_truediv_def)
next
  case False
  then have q0: "0 < q" by simp
  have nlt: "\<not> q * b < b" using q0 b by simp
  have e: "float_exponent (q * b) b \<le> 52" using float_exponent_exact_le[OF b q0 q] .
  show ?thesis
  proof (cases "float_exponent (q * b) b = 52")
    case True
    have "q < 2 ^ 1024" using q by (rule less_trans) simp
    with True b nlt show ?thesis
      by (simp add: int_truediv_def Let_def round_half_even_exact)
  next
    case False
    with e have lt: "float_exponent (q * b) b < 52" by simp
    have "round_half_even (q * b * 2 ^ (52 - float_exponent (q * b) b)) b
            = q * 2 ^ (52 - float_exponent (q * b) b)"
      using round_half_even_exact[OF b, of "q * 2 ^ (52 - float_exponent (q * b) b)"]
      by (simp add: mult.assoc mult.commute mult.left_commute)
    with lt b nlt show ?thesis
      by (simp add: int_truediv_def Let_def)
  qed
qed

lemma int_truediv_dvd:
  assumes "0 < b" "a mod b = 0" "a div b < 2 ^ 53"
  shows "int_truediv a b = Inr (a div b)"
proof -
  have "a = (a div b) * b" using assms(2) by (simp add: mod_eq_0_iff_dvd)
  then show ?thesis using int_truediv_exact[OF assms(1) assms(3)] by simp
qed


subsection \<open>The module body\<close>

text \<open>
  C8. \<^verbatim>\<open>torch.nn\<close> exports \<^verbatim>\<open>Module\<close>, not \<^verbatim>\<open>module\<close>. Whenever
  \<^verbatim>\<open>module\<close> is not a name of \<^verbatim>\<open>torch.nn\<close>, the class statements of
  \<^verbatim>\<open>ScaleDotAttention\<close> and \<^verbatim>\<open>LocationAwareAttention\<close> each raise an
  \<open>AttributeError\<close> while evaluating the base class, in whatever scope they run, so
  neither class is ever bound and no constructor of theirs can run; executing the
  module body never completes.
\<close>

theorem attention_classes_never_defined:
  assumes "''module'' \<notin> set (nn_attrs nn)"
  shows "ScaleDotAttention_class nn ns = Inl (AttributeError ''module'')
       \<and> LocationAwareAttention_class nn ns = Inl (AttributeError ''module'')
       \<and> exec_module nn =
           Inl (AttributeError (if ''Module'' \<in> set (nn_attrs nn) then ''module'' else ''Module''))"
  using assms
  by (simp add: ScaleDotAttention_class_def LocationAwareAttention_class_def exec_module_def
      VGGExtractor_class_def RNNLayer_class_def class_stmt_def nn_getattr_def)

theorem attention_classes_never_defined_witness:
  "''module'' \<notin> set (nn_attrs nn_example)
   \<and> ScaleDotAttention_class nn_example [''torch'', ''np'', ''nn'', ''VGGExtractor'', ''RNNLayer'']
       = Inl (AttributeError ''module'')
   \<and> LocationAwareAttention_class nn_example [''torch'', ''np'', ''nn'', ''VGGExtractor'', ''RNNLayer'']
       = Inl (AttributeError ''module'')
   \<and> exec_module nn_example = Inl (AttributeError ''module'')"
proof -
  have h: "''module'' \<notin> set (nn_attrs nn_example)"
    by (simp add: nn_example_def)
  show ?thesis
    using h attention_classes_never_defined [OF h, of "[''torch'', ''np'', ''nn'', ''VGGExtractor'', ''RNNLayer'']"]
    by (simp add: nn_example_def)
qed


subsection \<open>VGGExtractor: the dimension rule\<close>

lemma check_dim_module_globals:
  "check_dim module_globals input_dim = Inl (NameError ''example_input'')"
  by (simp add: check_dim_def)

lemma VGGExtractor_init_module_globals:
  "VGGExtractor_init nn module_globals input_dim = Inl (NameError ''example_input'')"
  by (simp add: VGGExtractor_init_def check_dim_module_globals)

text \<open>
  C1, as stated, fails: for the dimension 39 the branches of \<^verbatim>\<open>check_dim\<close> give
  the output dimension \<open>(13 div 4) * 128 = 384\<close>, not 416; and for a multiple of 13
  whose quotient needs more than 53 bits the channel count \<open>int(input_dim/13)\<close> is the
  rounded float quotient, not the quotient. A construction that gets as far as the
  branches (a module scope that binds \<^verbatim>\<open>example_input\<close> to a tensor of 39 features)
  stores the output dimension 384.
\<close>

theorem check_dim_mfcc_counterexample:
  "check_dim_branches module_globals 39 = Inr (3, 13, 384)
   \<and> check_dim_branches module_globals 39 \<noteq> Inr (3, 13, 416)
   \<and> (13 * (2 ^ 53 + 1)) mod 13 = (0::nat)
   \<and> check_dim_branches module_globals (13 * (2 ^ 53 + 1)) = Inr (2 ^ 53, 13, 384)
   \<and> map_sum id vgg_out_dim
         (VGGExtractor_init nn_example (module_globals \<lparr> gl_example_input := Some feature_17 \<rparr>) 39)
       = Inr 384"
  by (simp add: check_dim_branches_def int_truediv_def float_exponent_def round_half_even_def Let_def
      VGGExtractor_init_def check_dim_def feature_17_def nn_example_def)

text \<open>
  C1, amended. For every dimension divisible by 13 whose quotient by 13 is below
  \<open>2 ^ 53\<close>, the branches of \<^verbatim>\<open>check_dim\<close> (lines 30 to 37, applied to the
  dimension they examine) derive the channel count \<open>input_dim div 13\<close>, the
  per-channel frequency dimension 13 and the output dimension
  \<open>(13 div 4) * 128 = 384\<close>; the dimension 39 gives 3 channels and output dimension 384.
\<close>

theorem check_dim_mfcc:
  assumes "input_dim mod 13 = 0" and "input_dim div 13 < 2 ^ 53"
  shows "check_dim_branches g input_dim = Inr (input_dim div 13, 13, 384)"
  using assms by (simp add: check_dim_branches_def int_truediv_dvd)

theorem check_dim_mfcc_witness:
  "(39::nat) mod 13 = 0 \<and> (39::nat) div 13 < 2 ^ 53
   \<and> check_dim_branches module_globals 39 = Inr (3, 13, 384)"
proof -
  have h1: "(39::nat) mod 13 = 0" by simp
  have h2: "(39::nat) div 13 < 2 ^ 53" by simp
  show ?thesis
    using h1 h2 check_dim_mfcc [OF h1 h2, of module_globals] by simp
qed

text \<open>
  C6. Constructing \<^verbatim>\<open>VGGExtractor\<close> with the dimension 50 raises at construction
  time, but the exception is a \<open>NameError\<close>, not the \<open>ValueError\<close> of line 37:
  in the module scope of the file \<^verbatim>\<open>check_dim\<close> stops at line 29 on the unbound
  name \<^verbatim>\<open>example_input\<close>, and the last branch (reached for 50 once a dimension is
  examined) stops on the unbound name \<^verbatim>\<open>d\<close> while building the message.
\<close>

theorem VGGExtractor_init_50_raises_NameError:
  "VGGExtractor_init nn module_globals 50 = Inl (NameError ''example_input'')
   \<and> check_dim_branches module_globals 50 = Inl (NameError ''d'')
   \<and> check_dim (module_globals \<lparr> gl_example_input := Some \<lparr> shape = [1, 17, 50], elem = e \<rparr> \<rparr>) 50
       = Inl (NameError ''d'')"
  by (simp add: VGGExtractor_init_module_globals check_dim_branches_def check_dim_def)


subsection \<open>VGGExtractor: the forward pass\<close>

lemma div_mod_block:
  fixes b r m :: nat
  assumes "r < m"
  shows "(b * m + r) div m = b" "(b * m + r) mod m = r"
  using assms by simp_all

lemma view_input_ok:
  assumes sh: "shape feature = [bs, ts, vgg_in_channel self * vgg_freq_dim self]"
  shows "\<exists>x. view_input self feature feat_len = Inr (x, map (\<lambda>l. l div 4) feat_len)
       \<and> shape x = [bs, vgg_in_channel self, ts - ts mod 4, vgg_freq_dim self]
       \<and> (\<forall>b t c f. t < ts - ts mod 4 \<and> c < vgg_in_channel self \<and> f < vgg_freq_dim self \<longrightarrow>
             elem x [b, c, t, f] = elem feature [b, t, c * vgg_freq_dim self + f])"
proof -
  let ?C = "vgg_in_channel self" and ?F = "vgg_freq_dim self" and ?T = "ts - ts mod 4"
  have idx: "unravel [bs, ?T, ?C * ?F] (ravel [bs, ?T, ?C, ?F] [b, t, c, f]) = [b, t, c * ?F + f]"
    if "t < ?T" "c < ?C" "f < ?F" for b t c f
  proof -
    have cf: "c * ?F + f < ?C * ?F"
    proof -
      have "c * ?F + f < c * ?F + ?F" using that by simp
      also have "\<dots> = (c + 1) * ?F" by simp
      also have "\<dots> \<le> ?C * ?F" using that by (intro mult_le_mono1) simp
      finally show ?thesis .
    qed
    have inner: "t * (?C * ?F) + (c * ?F + f) < ?T * (?C * ?F)"
    proof -
      have "t * (?C * ?F) + (c * ?F + f) < t * (?C * ?F) + ?C * ?F" using cf by simp
      also have "\<dots> = (t + 1) * (?C * ?F)" by simp
      also have "\<dots> \<le> ?T * (?C * ?F)" using that by (intro mult_le_mono1) simp
      finally show ?thesis .
    qed
    let ?M = "?C * ?F"
    let ?r = "t * ?M + (c * ?F + f)"
    have r: "ravel [bs, ?T, ?C, ?F] [b, t, c, f] = b * (?T * ?M) + ?r"
      by (simp add: algebra_simps)
    have u: "unravel [bs, ?T, ?M] k = [k div (?T * ?M), k mod (?T * ?M) div ?M, k mod (?T * ?M) mod ?M]" for k
      by simp
    have 1: "(b * (?T * ?M) + ?r) div (?T * ?M) = b" and 2: "(b * (?T * ?M) + ?r) mod (?T * ?M) = ?r"
      using div_mod_block[OF inner, of b] by simp_all
    have 3: "?r div ?M = t" and 4: "?r mod ?M = c * ?F + f"
      using div_mod_block[OF cf, of t] by simp_all
    show ?thesis
      unfolding r u 1 2 3 4 by simp
  qed
  show ?thesis
    using sh idx
    by (cases "ts mod 4 = 0")
       (auto simp add: view_input_def shape_at_def slice_drop_last_def unpack3_def view_def
          numel_def transpose_1_2_def swap_1_2_def Let_def)
qed


lemma trunc4_div: "(ts - ts mod 4) div 2 div 2 = ts div 4" for ts :: nat
  by presburger

lemma trunc4: "ts - ts mod 4 = 4 * (ts div 4)" for ts :: nat
  by presburger

text \<open>
  C3. \<^verbatim>\<open>VGGExtractor.forward\<close> on a batch of \<open>ts\<close> frames (at least 4, so that the
  stack has a full pooling window) returns the lengths divided by 4, entry by entry,
  and a time axis of \<open>ts div 4\<close>. Its \<^verbatim>\<open>view_input\<close> keeps the first
  \<open>4 * (ts div 4)\<close> frames, the largest multiple of 4 within \<open>ts\<close>, each frame's
  features split into channels in order: trailing frames are dropped, nothing is
  padded, and nothing is dropped when \<open>ts\<close> is a multiple of 4. For 17 frames the
  output time axis is 4 and the length 17 becomes 4.
\<close>

theorem VGGExtractor_forward_time:
  assumes stack: "vgg_stack_shapes self"
    and sh: "shape feature = [bs, ts, vgg_in_channel self * vgg_freq_dim self]"
    and pos: "0 < bs" "4 \<le> ts" "4 \<le> vgg_freq_dim self"
    and out: "vgg_out_dim self = 128 * (vgg_freq_dim self div 4)"
  shows "\<exists>x y. view_input self feature feat_len = Inr (x, map (\<lambda>l. l div 4) feat_len)
       \<and> shape x = [bs, vgg_in_channel self, 4 * (ts div 4), vgg_freq_dim self]
       \<and> (\<forall>b t c f. t < 4 * (ts div 4) \<and> c < vgg_in_channel self \<and> f < vgg_freq_dim self \<longrightarrow>
             elem x [b, c, t, f] = elem feature [b, t, c * vgg_freq_dim self + f])
       \<and> VGGExtractor_forward self feature feat_len = Inr (y, map (\<lambda>l. l div 4) feat_len)
       \<and> shape y = [bs, ts div 4, vgg_out_dim self]"
proof -
  let ?C = "vgg_in_channel self" and ?F = "vgg_freq_dim self"
  obtain x where x: "view_input self feature feat_len = Inr (x, map (\<lambda>l. l div 4) feat_len)"
    and shx: "shape x = [bs, ?C, ts - ts mod 4, ?F]"
    and elx: "\<forall>b t c f. t < ts - ts mod 4 \<and> c < ?C \<and> f < ?F \<longrightarrow>
             elem x [b, c, t, f] = elem feature [b, t, c * ?F + f]"
    using view_input_ok[OF sh, of feat_len] by blast
  have "4 \<le> ts - ts mod 4" using pos(2) by presburger
  with stack shx pos obtain y where y: "vgg_extractor self x = Inr y"
    and shy: "shape y = [bs, 128, (ts - ts mod 4) div 2 div 2, ?F div 2 div 2]"
    unfolding vgg_stack_shapes_def by blast
  have f4: "?F div 2 div 2 = ?F div 4" by presburger
  have shy': "shape y = [bs, 128, ts div 4, ?F div 4]"
    using shy by (simp only: trunc4_div f4)
  have fw: "\<exists>z. VGGExtractor_forward self feature feat_len = Inr (z, map (\<lambda>l. l div 4) feat_len)
       \<and> shape z = [bs, ts div 4, vgg_out_dim self]"
    using x y shy' out
    by (simp add: VGGExtractor_forward_def transpose_1_2_def swap_1_2_def shape_at_def view_def numel_def)
  show ?thesis
    using x shx elx fw by (auto simp add: trunc4)
qed

lemma vgg_example_stack: "vgg_stack_shapes vgg_example"
  by (auto simp add: vgg_stack_shapes_def vgg_example_def)

theorem VGGExtractor_forward_time_witness:
  "vgg_stack_shapes vgg_example
   \<and> shape feature_17 = [1, 17, vgg_in_channel vgg_example * vgg_freq_dim vgg_example]
   \<and> (\<exists>x y. view_input vgg_example feature_17 [17] = Inr (x, [4])
        \<and> shape x = [1, 3, 16, 13]
        \<and> elem x [0, 2, 15, 12] = elem feature_17 [0, 15, 38]
        \<and> VGGExtractor_forward vgg_example feature_17 [17] = Inr (y, [4])
        \<and> shape y = [1, 4, 384])"
proof -
  have h1: "vgg_stack_shapes vgg_example" by (rule vgg_example_stack)
  have h2: "shape feature_17 = [1, 17, vgg_in_channel vgg_example * vgg_freq_dim vgg_example]"
    by (simp add: feature_17_def vgg_example_def)
  have h3: "vgg_out_dim vgg_example = 128 * (vgg_freq_dim vgg_example div 4)"
    by (simp add: vgg_example_def)
  have h4: "4 \<le> vgg_freq_dim vgg_example" by (simp add: vgg_example_def)
  from VGGExtractor_forward_time [OF h1 h2 _ _ h4 h3, of "[17]"]
  obtain x y where "view_input vgg_example feature_17 [17] = Inr (x, [4])"
    "shape x = [1, vgg_in_channel vgg_example, 16, vgg_freq_dim vgg_example]"
    "\<forall>b t c f. t < 16 \<and> c < vgg_in_channel vgg_example \<and> f < vgg_freq_dim vgg_example \<longrightarrow>
             elem x [b, c, t, f] = elem feature_17 [b, t, c * vgg_freq_dim vgg_example + f]"
    "VGGExtractor_forward vgg_example feature_17 [17] = Inr (y, [4])"
    "shape y = [1, 4, vgg_out_dim vgg_example]"
    by auto
  then have "view_input vgg_example feature_17 [17] = Inr (x, [4])
        \<and> shape x = [1, 3, 16, 13]
        \<and> elem x [0, 2, 15, 12] = elem feature_17 [0, 15, 38]
        \<and> VGGExtractor_forward vgg_example feature_17 [17] = Inr (y, [4])
        \<and> shape y = [1, 4, 384]"
    by (simp add: vgg_example_def)
  with h1 h2 show ?thesis by blast
qed


subsection \<open>RNNLayer\<close>

lemma RNNLayer_init_module_globals:
  "RNNLayer_init nn module_globals input_dim module' dim' bidirection dropout layer_norm sample_rate sample_style
   = Inl (if sample_style \<in> set [''drop'', ''concat''] then NameError ''rnn_cell''
          else ValueError (''Unsupported Sample Style: '' @ sample_style))"
  by (simp add: RNNLayer_init_def Let_def)

lemma RNNLayer_forward_module_globals:
  "RNNLayer_forward module_globals self input_x x_len = Inl (NameError ''pack_padded_sequence'')"
  by (simp add: RNNLayer_forward_def RNNLayer_recurrent_def)

text \<open>
  C9. In the module scope of the file, constructing an \<^verbatim>\<open>RNNLayer\<close> with the sample
  style \<^verbatim>\<open>drop\<close> or \<^verbatim>\<open>concat\<close> raises a \<open>NameError\<close> on \<^verbatim>\<open>rnn_cell\<close>
  (line 80, before \<^verbatim>\<open>in_dim\<close> is read), whatever the other arguments; and no
  argument combination at all yields an instance, so \<^verbatim>\<open>forward\<close> has no instance
  to run on.
\<close>

theorem RNNLayer_init_raises:
  assumes "sample_style = ''drop'' \<or> sample_style = ''concat''"
  shows "RNNLayer_init nn module_globals input_dim module' dim' bidirection dropout layer_norm sample_rate sample_style
           = Inl (NameError ''rnn_cell'')
       \<and> (\<forall>i m d b p l r s. isl (RNNLayer_init nn module_globals i m d b p l r s))"
  using assms by (auto simp add: RNNLayer_init_module_globals)

theorem RNNLayer_init_raises_witness:
  "(''concat'' = ''drop'' \<or> ''concat'' = ''concat'')
   \<and> RNNLayer_init nn_example module_globals 39 ''LSTM'' 320 True 0 False 3 ''concat''
       = Inl (NameError ''rnn_cell'')
   \<and> isl (RNNLayer_init nn_example module_globals 39 ''LSTM'' 320 True 0 False 1 ''drop'')"
proof -
  have h: "''concat'' = ''drop'' \<or> ''concat'' = ''concat''" by simp
  show ?thesis
    using h RNNLayer_init_raises [OF h, of nn_example 39 "''LSTM''" 320 True 0 False 3]
    by blast
qed

lemma concat_index:
  fixes F :: nat
  assumes "t < n" "j < F * s"
  shows "unravel [B, n * s, F] (ravel [B, n, F * s] [b, t, j]) = [b, t * s + j div F, j mod F]"
proof -
  let ?M = "n * s * F"
  let ?r = "t * (F * s) + j"
  have inner: "?r < ?M"
  proof -
    have "?r < t * (F * s) + F * s" using assms by simp
    also have "\<dots> = (t + 1) * (F * s)" by simp
    also have "\<dots> \<le> n * (F * s)" using assms by (intro mult_le_mono1) simp
    finally show ?thesis by (simp add: mult.assoc mult.commute mult.left_commute)
  qed
  have r: "ravel [B, n, F * s] [b, t, j] = b * ?M + ?r"
    by (simp add: algebra_simps)
  have u: "unravel [B, n * s, F] k = [k div ?M, k mod ?M div F, k mod ?M mod F]" for k
    by simp
  have 1: "(b * ?M + ?r) div ?M = b" and 2: "(b * ?M + ?r) mod ?M = ?r"
    using div_mod_block[OF inner, of b] by simp_all
  have e: "?r = (t * s) * F + j" by (simp add: algebra_simps)
  have 3: "?r div F = t * s + j div F"
  proof (cases "F = 0")
    case True then show ?thesis using assms by simp
  next
    case False then show ?thesis unfolding e by simp
  qed
  have 4: "?r mod F = j mod F" unfolding e by simp
  show ?thesis unfolding r u 1 2 3 4 by simp
qed

lemma int_truediv_10_3: "int_truediv 10 3 = Inr 3"
  by (simp add: int_truediv_def float_exponent_def round_half_even_def Let_def)

text \<open>
  C5. With sample rate 3 and style \<^verbatim>\<open>concat\<close>, when the recurrent pass of
  \<^verbatim>\<open>forward\<close> yields an output of 10 timesteps, \<^verbatim>\<open>forward\<close> returns 3
  timesteps (9 are kept, the last is dropped), each the concatenation, in order, of 3
  consecutive timesteps of that output, with 3 times its feature width, and the lengths
  divided by 3; \<^verbatim>\<open>__init__\<close> computes the exposed width as 3 times the recurrent
  output width.
\<close>

theorem RNNLayer_forward_concat:
  assumes recur: "RNNLayer_recurrent g self input_x x_len0 = Inr (output, x_len)"
    and rate: "rnn_sample_rate self = 3"
    and style: "rnn_sample_style self = ''concat''"
    and sh: "shape output = [batch_size, 10, feature_dim]"
  shows "\<exists>y. RNNLayer_forward g self input_x x_len0 = Inr (y, map (\<lambda>l. l div 3) x_len)
       \<and> shape y = [batch_size, 3, feature_dim * 3]
       \<and> (\<forall>b t j. t < 3 \<and> j < feature_dim * 3 \<longrightarrow>
             elem y [b, t, j] = elem output [b, t * 3 + j div feature_dim, j mod feature_dim])
       \<and> RNNLayer_out_dim dim' bidirection 3 ''concat'' = 3 * RNNLayer_rnn_out_dim dim' bidirection"
proof -
  have idx: "unravel [batch_size, 9, feature_dim] (ravel [batch_size, 3, feature_dim * 3] [b, t, j])
              = [b, t * 3 + j div feature_dim, j mod feature_dim]"
    if "t < 3" "j < feature_dim * 3" for b t j
    using concat_index[of t 3 j feature_dim 3 batch_size b] that by simp
  have ds: "\<exists>y. RNNLayer_downsample self output x_len = Inr (y, map (\<lambda>l. l div 3) x_len)
       \<and> shape y = [batch_size, 3, feature_dim * 3]
       \<and> (\<forall>b t j. t < 3 \<and> j < feature_dim * 3 \<longrightarrow>
             elem y [b, t, j] = elem output [b, t * 3 + j div feature_dim, j mod feature_dim])"
    using rate style sh idx
    by (simp add: RNNLayer_downsample_def unpack3_def slice_drop_last_def int_truediv_10_3
        view_def numel_def)
  have od: "RNNLayer_out_dim dim' bidirection 3 ''concat'' = 3 * RNNLayer_rnn_out_dim dim' bidirection"
    by (simp add: RNNLayer_out_dim_def)
  show ?thesis
    using ds od recur by (simp add: RNNLayer_forward_def)
qed

theorem RNNLayer_forward_concat_witness:
  "RNNLayer_recurrent globals_rnn_example rnn_example output_10 [10] = Inr (output_10, [10])
   \<and> rnn_sample_rate rnn_example = 3 \<and> rnn_sample_style rnn_example = ''concat''
   \<and> shape output_10 = [1, 10, 2]
   \<and> (\<exists>y. RNNLayer_forward globals_rnn_example rnn_example output_10 [10] = Inr (y, [3])
        \<and> shape y = [1, 3, 6]
        \<and> map (\<lambda>j. elem y [0, 1, j]) [0, 1, 2, 3, 4, 5] = [6, 7, 8, 9, 10, 11])"
proof -
  have h1: "RNNLayer_recurrent globals_rnn_example rnn_example output_10 [10] = Inr (output_10, [10])"
    by (simp add: RNNLayer_recurrent_def globals_rnn_example_def rnn_example_def)
  have h2: "rnn_sample_rate rnn_example = 3" by (simp add: rnn_example_def)
  have h3: "rnn_sample_style rnn_example = ''concat''" by (simp add: rnn_example_def)
  have h4: "shape output_10 = [1, 10, 2]" by (simp add: output_10_def)
  from RNNLayer_forward_concat [OF h1 h2 h3 h4, of 1 True]
  obtain y where y: "RNNLayer_forward globals_rnn_example rnn_example output_10 [10] = Inr (y, [3])"
    "shape y = [1, 3, 2 * 3]"
    "\<forall>b t j. t < 3 \<and> j < 2 * 3 \<longrightarrow> elem y [b, t, j] = elem output_10 [b, t * 3 + j div 2, j mod 2]"
    by auto
  have "map (\<lambda>j. elem y [0, 1, j]) [0, 1, 2, 3, 4, 5] = [6, 7, 8, 9, 10, 11]"
    using y(3) by (simp add: output_10_def)
  with y h1 h2 h3 h4 show ?thesis by auto
qed


subsection \<open>The attention classes\<close>

lemma lookup_local_None [simp]: "lookup_local n None = Inl (UnboundLocalError n)"
  by (simp add: lookup_local_def)

lemma bindE_isl_cont: "(\<And>x. isl (f x)) \<Longrightarrow> isl (bindE m f)"
  by (cases m) simp_all

lemma attend_finish_None: "attend_finish g self None v = Inl (UnboundLocalError ''attn'')"
  by (simp add: attend_finish_def)

lemma attend_raises: "isl (attend g self q v mask' ts)"
  unfolding attend_def Let_def attend_finish_None
  by (intro bindE_isl_cont) simp

lemma attend_not_Inr [simp]: "attend g self q v mask' ts \<noteq> Inr r"
  using attend_raises[of g self q v mask' ts] by (auto simp add: isl_def)

lemma init_prev_att_module_globals:
  "init_prev_att module_globals self ts =
     (case laa_prev_att self of Some _ \<Rightarrow> (Inr (), self) | None \<Rightarrow> (Inl (NameError ''bs''), self))"
  by (simp add: init_prev_att_def split: option.split)

lemma init_prev_att_k: "laa_k (snd (init_prev_att g self ts)) = laa_k self"
  by (simp add: init_prev_att_def Let_def split: option.split prod.split)

lemma forward_k: "laa_k (snd (LocationAwareAttention_forward g self q k v mask')) = laa_k self"
proof (cases "shape_at k 1")
  case (Inl e)
  then show ?thesis by (simp add: LocationAwareAttention_forward_def)
next
  case (Inr ts)
  obtain r s where i: "init_prev_att g self ts = (r, s)" by (cases "init_prev_att g self ts")
  have "laa_k s = laa_k self" using init_prev_att_k[of g self ts] i by simp
  with Inr i show ?thesis
    by (cases r) (simp_all add: LocationAwareAttention_forward_def split: sum.split)
qed

text \<open>
  C10. Every call of \<^verbatim>\<open>LocationAwareAttention.forward\<close> raises, for all inputs, with
  \<^verbatim>\<open>prev_att\<close> set or not, and whatever the module scope binds: line 173 reads the
  local variable \<^verbatim>\<open>attn\<close> that nothing has assigned, and before it line 169 reads
  \<^verbatim>\<open>self.k\<close>, which neither \<^verbatim>\<open>__init__\<close> nor \<^verbatim>\<open>reset_mem\<close> nor \<^verbatim>\<open>forward\<close>
  assigns. So no output is returned and line 176 never stores an attention in
  \<^verbatim>\<open>prev_att\<close>; in the module scope of the file the instance is left as it was.
\<close>

theorem LocationAwareAttention_forward_always_raises:
  "isl (fst (LocationAwareAttention_forward g self q k v mask'))
   \<and> snd (LocationAwareAttention_forward module_globals self q k v mask') = self
   \<and> laa_k (snd (LocationAwareAttention_forward g self q k v mask')) = laa_k self
   \<and> laa_k (reset_mem self) = laa_k self
   \<and> (case LocationAwareAttention_init nn kernel_size kernel_num dim' num_head temperature of
         Inl e \<Rightarrow> True | Inr s \<Rightarrow> laa_k s = None \<and> laa_prev_att s = None)
   \<and> attend_finish g self None v = Inl (UnboundLocalError ''attn'')"
proof -
  have 1: "isl (fst (LocationAwareAttention_forward g self q k v mask'))"
    by (auto simp add: LocationAwareAttention_forward_def split: sum.split prod.split)
  have 2: "snd (LocationAwareAttention_forward module_globals self q k v mask') = self"
    by (auto simp add: LocationAwareAttention_forward_def init_prev_att_module_globals
        split: sum.split prod.split option.split)
  have 3: "case LocationAwareAttention_init nn kernel_size kernel_num dim' num_head temperature of
         Inl e \<Rightarrow> True | Inr s \<Rightarrow> laa_k s = None \<and> laa_prev_att s = None"
    by (auto simp add: LocationAwareAttention_init_def bindE_def split: sum.split)
  show ?thesis
    using 1 2 3 by (simp add: forward_k reset_mem_def attend_finish_None)
qed

text \<open>
  C4. After \<^verbatim>\<open>reset_mem\<close>, the first \<^verbatim>\<open>forward\<close> call (here on keys with 5
  positions) raises a \<open>NameError\<close> on \<^verbatim>\<open>bs\<close> at line 159 and leaves
  \<^verbatim>\<open>prev_att\<close> unset: no uniform distribution is stored. \<^verbatim>\<open>forward\<close> has no
  \<^verbatim>\<open>enc_len\<close> parameter; only in a module scope that binds \<^verbatim>\<open>bs\<close> to 1 and
  \<^verbatim>\<open>enc_len\<close> to \<open>[3]\<close> do lines 158 to 161 store \<open>1/3\<close> at positions 0 to 2 and 0 at
  positions 3 and 4.
\<close>

theorem first_forward_leaves_prev_att_unset:
  "LocationAwareAttention_forward module_globals (reset_mem self) q (keys_of_batch 1) v mask'
     = (Inl (NameError ''bs''), reset_mem self)
   \<and> laa_prev_att (snd (LocationAwareAttention_forward module_globals (reset_mem self) q (keys_of_batch 1) v mask')) = None
   \<and> fst (init_prev_att (module_globals \<lparr> gl_bs := Some 1, gl_enc_len := Some [3] \<rparr>) (reset_mem self) 5) = Inr ()
   \<and> map (\<lambda>j. elem (the (laa_prev_att (snd (init_prev_att
              (module_globals \<lparr> gl_bs := Some 1, gl_enc_len := Some [3] \<rparr>) (reset_mem self) 5)))) [0, h, j])
         [0, 1, 2, 3, 4]
       = [Fin (1 / 3), Fin (1 / 3), Fin (1 / 3), Fin 0, Fin 0]"
  by (simp add: LocationAwareAttention_forward_def init_prev_att_module_globals reset_mem_def
      keys_of_batch_def shape_at_def init_prev_att_def zeros_def assign_row_prefix_def upt_rec Let_def)

text \<open>
  C7. Two \<^verbatim>\<open>forward\<close> calls, for a batch of 4 and then of 2, with no
  \<^verbatim>\<open>reset_mem\<close> between them: each raises a \<open>NameError\<close> on \<^verbatim>\<open>bs\<close>, not a
  shape-mismatch error (a \<open>RuntimeError\<close>); the first call stores no state for the
  second one to disagree with.
\<close>

theorem forward_twice_raises_NameError:
  "LocationAwareAttention_forward module_globals (reset_mem self) (queries_of_batch 4) (keys_of_batch 4) v4 mask4
     = (Inl (NameError ''bs''), reset_mem self)
   \<and> LocationAwareAttention_forward module_globals
        (snd (LocationAwareAttention_forward module_globals (reset_mem self) (queries_of_batch 4) (keys_of_batch 4) v4 mask4))
        (queries_of_batch 2) (keys_of_batch 2) v2 mask2
     = (Inl (NameError ''bs''), reset_mem self)"
  by (simp add: LocationAwareAttention_forward_def init_prev_att_module_globals reset_mem_def
      keys_of_batch_def shape_at_def)

text \<open>
  C2. For one query, five keys and a mask that leaves only the key at index 2 valid,
  \<^verbatim>\<open>ScaleDotAttention.forward\<close> returns nothing: it raises a \<open>NameError\<close> on
  \<^verbatim>\<open>bs\<close> at line 135 (and, were \<^verbatim>\<open>bs\<close> bound, an \<open>AttributeError\<close> on
  \<^verbatim>\<open>self.num_head\<close>). The weights of line 133 are the softmax along axis 1 of the
  scores of shape (1, 1, 5), the query axis: 1 at index 2, but \<open>NaN\<close>, not 0, at the
  masked positions.
\<close>

theorem ScaleDotAttention_forward_raises:
  "ScaleDotAttention_forward module_globals (ScaleDotAttention_init 1) query_1 keys_5 keys_5 (Some mask_all_but_2)
     = Inl (NameError ''bs'')
   \<and> ScaleDotAttention_forward (module_globals \<lparr> gl_bs := Some 1 \<rparr>) (ScaleDotAttention_init 1) query_1 keys_5 keys_5
        (Some mask_all_but_2)
     = Inl (AttributeError ''num_head'')
   \<and> (\<exists>w. ScaleDotAttention_weights (ScaleDotAttention_init 1) query_1 keys_5 (Some mask_all_but_2) = Inr w
        \<and> shape w = [1, 1, 5]
        \<and> map (\<lambda>j. elem w [0, 0, j]) [0, 1, 2, 3, 4] = [NaN, NaN, Fin 1, NaN, NaN])"
  by (simp add: ScaleDotAttention_forward_def ScaleDotAttention_weights_def ScaleDotAttention_init_def
      query_1_def keys_5_def mask_all_but_2_def transpose_1_2_def swap_1_2_def bmm_def map_tensor_def
      masked_fill_def broadcast_shapes_def expand_index_def softmax_dim_def softmax_list_def
      fp_sum_def fp_sub_def upt_rec Let_def)

end
